theory Spec2Isabelle
  imports Main "HOL-Library.AList"
begin

section \<open>JavaScript values\<close>

text \<open>
  The handler receives \<open>data: any\<close>, hands whatever the permission filter returns to the
  repository and to the caller, and reads properties of the records the repository
  returns. Those values are modelled as a universe of JavaScript values: objects are
  association lists from property names to values, kept in insertion order.
  Numbers are restricted to integers (identifiers and lengths).
\<close>

datatype jsval =
    JUndefined
  | JNull
  | JBool bool
  | JNum int
  | JStr string
  | JArr "jsval list"
  | JObj "(string \<times> jsval) list"

type_synonym obj = "(string \<times> jsval) list"

text \<open>The activity types the handler names. The enumeration is declared in the activity
  helper, outside these sources; the handler uses these six members, as action of a
  permission lookup and as type of an activity record.\<close>

datatype ActivityType = CREATE | READ | UPDATE | DELETE | ADD | REMOVE

text \<open>The exceptions of the handler, with the arguments of their constructors, and the
  \<open>TypeError\<close> the runtime raises when a property of \<open>undefined\<close> or \<open>null\<close> is
  read, a non-array is pushed to, or a non-iterable is iterated.\<close>

datatype error =
    RecordNotFoundException string
  | RecordsNotFoundException string
  | UserNotAuthorizedException int ActivityType string
  | TypeError

text \<open>Truthiness, as \<open>if (x)\<close>, \<open>!x\<close> and \<open>x ? a : b\<close> test it.\<close>

fun truthy :: "jsval \<Rightarrow> bool" where
  "truthy JUndefined = False"
| "truthy JNull = False"
| "truthy (JBool b) = b"
| "truthy (JNum n) = (n \<noteq> 0)"
| "truthy (JStr s) = (s \<noteq> [])"
| "truthy (JArr xs) = True"
| "truthy (JObj fs) = True"

text \<open>\<open>o.k\<close> on an object known to be one (a record the repository returned).\<close>

definition field :: "obj \<Rightarrow> string \<Rightarrow> jsval" where
  "field fs k = (case map_of fs k of Some v \<Rightarrow> v | None \<Rightarrow> JUndefined)"

text \<open>\<open>v.k\<close> on any value, for the property names the handler reads (\<open>id\<close>,
  \<open>permissions\<close>, \<open>action\<close>): a \<open>TypeError\<close> on \<open>undefined\<close> and \<open>null\<close>,
  the property on an object, \<open>undefined\<close> on the other primitives and on arrays.\<close>

fun get_prop :: "jsval \<Rightarrow> string \<Rightarrow> error + jsval" where
  "get_prop JUndefined k = Inl TypeError"
| "get_prop JNull k = Inl TypeError"
| "get_prop (JObj fs) k = Inr (field fs k)"
| "get_prop v k = Inr JUndefined"

text \<open>Decimal digits of a natural number, for \<open>String(n)\<close>.\<close>

fun digits :: "nat \<Rightarrow> string" where
  "digits n =
     (if n < 10 then [''0123456789'' ! n]
      else digits (n div 10) @ [''0123456789'' ! (n mod 10)])"

declare digits.simps [simp del]

text \<open>\<open>String(v)\<close>: an array joins the strings of its elements with commas, with
  \<open>undefined\<close> and \<open>null\<close> elements as empty strings.\<close>

fun to_String :: "jsval \<Rightarrow> string"
  and join_String :: "jsval list \<Rightarrow> string"
  and elem_String :: "jsval \<Rightarrow> string" where
  "to_String JUndefined = ''undefined''"
| "to_String JNull = ''null''"
| "to_String (JBool b) = (if b then ''true'' else ''false'')"
| "to_String (JNum n) = (if n < 0 then ''-'' @ digits (nat (- n)) else digits (nat n))"
| "to_String (JStr s) = s"
| "to_String (JArr xs) = join_String xs"
| "to_String (JObj fs) = ''[object Object]''"
| "join_String [] = []"
| "join_String [x] = elem_String x"
| "join_String (x # y # ys) = elem_String x @ '','' @ join_String (y # ys)"
| "elem_String JUndefined = []"
| "elem_String JNull = []"
| "elem_String v = to_String v"

text \<open>The own enumerable properties an object spread \<open>{...v}\<close> copies: the fields of an
  object, the indexed elements of an array or of a string, nothing for the rest.\<close>

fun spread :: "jsval \<Rightarrow> obj" where
  "spread (JObj fs) = fs"
| "spread (JArr xs) = zip (map digits [0..<length xs]) xs"
| "spread (JStr s) = zip (map digits [0..<length s]) (map (\<lambda>c. JStr [c]) s)"
| "spread v = []"

text \<open>\<open>arr.push(x)\<close>: only an array has \<open>push\<close>.\<close>

fun push :: "jsval \<Rightarrow> jsval \<Rightarrow> error + jsval" where
  "push (JArr xs) x = Inr (JArr (xs @ [x]))"
| "push v x = Inl TypeError"

text \<open>The values \<open>for (const x of v)\<close> iterates over: arrays and strings are iterable.\<close>

fun iterate :: "jsval \<Rightarrow> error + jsval list" where
  "iterate (JArr xs) = Inr xs"
| "iterate (JStr s) = Inr (map (\<lambda>c. JStr [c]) s)"
| "iterate v = Inl TypeError"

section \<open>Collaborators of the handler\<close>

text \<open>Of the user entity the handler reads the \<open>id\<close> only. The actor of an activity
  record is that id with the actor type \<open>Person\<close>.\<close>

record User =
  user_id :: int

datatype ActorType = Person | System

record Actor =
  actor_id :: int
  actor_type :: ActorType

text \<open>The activity record handed to \<open>event.emit\<close>; \<open>target\<close> is optional.\<close>

record Activity =
  actor :: Actor
  object :: jsval
  resource :: string
  target :: "jsval option"
  timestamp :: int
  took :: int
  type :: ActivityType

text \<open>The answer of permission resolution: the decision and the filter bound to the
  resolved attributes, applied to records, arrays of records and input data alike.\<close>

record AuthPermission =
  granted :: bool
  filter_fn :: "jsval \<Rightarrow> jsval"

record SearchResult =
  data :: jsval
  length_r :: nat
  total :: nat

text \<open>The calls the handler makes on the repository, in order, with their arguments.\<close>

datatype store_call =
    Find "string list"
  | FindOne string "string list"
  | Save jsval
  | Remove jsval

text \<open>The repository of the ORM is outside the handler: it is a parameter, functions
  over a store state \<open>'s\<close>. \<open>find\<close> yields the rows or nothing (\<open>undefined\<close>),
  \<open>findOne\<close> a record or nothing, \<open>save\<close> the saved record and the new state.
  The handler hands \<open>save\<close> an object and goes on using that object, and an ORM
  writes the fields it generates into the object it is handed: \<open>repo_written\<close> is that
  object as the call leaves it.\<close>

record 's Repository =
  repo_find :: "string list \<Rightarrow> 's \<Rightarrow> obj list option"
  repo_findOne :: "string \<Rightarrow> string list \<Rightarrow> 's \<Rightarrow> obj option"
  repo_save :: "jsval \<Rightarrow> 's \<Rightarrow> jsval \<times> 's"
  repo_written :: "jsval \<Rightarrow> 's \<Rightarrow> jsval"
  repo_remove :: "jsval \<Rightarrow> 's \<Rightarrow> 's"

text \<open>A call can write into an object or an array it is handed, which stays the object or
  the array it was; a primitive value it cannot change.\<close>

fun handed_back :: "jsval \<Rightarrow> jsval \<Rightarrow> jsval" where
  "handed_back (JObj fs) (JObj fs') = JObj fs'"
| "handed_back (JArr xs) (JArr xs') = JArr xs'"
| "handed_back v v' = v"

text \<open>The fields of a value that is an object.\<close>

fun fields_of :: "jsval \<Rightarrow> obj" where
  "fields_of (JObj fs) = fs"
| "fields_of v = []"

text \<open>What the handler runs against: the repository, permission resolution
  (\<open>getPermission\<close> of the authorization helper) and the readings of the clock, the
  \<open>n\<close>-th call of \<open>Date.now()\<close> returning \<open>clock n\<close>.\<close>

record 's env =
  roleRepository :: "'s Repository"
  getPermission :: "User \<Rightarrow> bool \<Rightarrow> ActivityType \<Rightarrow> string \<Rightarrow> AuthPermission"
  clock :: "nat \<Rightarrow> int"

text \<open>The state the handler changes: the store, the log of repository calls, the activity
  records emitted on the event channel, and the number of clock readings taken.\<close>

record 's world =
  db :: 's
  calls :: "store_call list"
  events :: "(ActivityType \<times> Activity) list"
  ticks :: nat

text \<open>\<open>Date.now()\<close> takes the next reading; \<open>event.emit\<close> publishes a record on the
  channel, which keeps them in order; the four repository calls are logged and act on
  the store. \<open>save\<close> yields the record it returns and, second, the object it was
  handed as it is after the call.\<close>

definition Date_now :: "'s env \<Rightarrow> 's world \<Rightarrow> int \<times> 's world" where
  "Date_now env w = (clock env (ticks w), w\<lparr>ticks := Suc (ticks w)\<rparr>)"

definition event_emit :: "ActivityType \<Rightarrow> Activity \<Rightarrow> 's world \<Rightarrow> 's world" where
  "event_emit t a w = w\<lparr>events := events w @ [(t, a)]\<rparr>"

definition find_call :: "'s env \<Rightarrow> string list \<Rightarrow> 's world \<Rightarrow> obj list option \<times> 's world" where
  "find_call env rels w =
     (repo_find (roleRepository env) rels (db w), w\<lparr>calls := calls w @ [Find rels]\<rparr>)"

definition findOne_call ::
  "'s env \<Rightarrow> string \<Rightarrow> string list \<Rightarrow> 's world \<Rightarrow> obj option \<times> 's world" where
  "findOne_call env i rels w =
     (repo_findOne (roleRepository env) i rels (db w), w\<lparr>calls := calls w @ [FindOne i rels]\<rparr>)"

definition save_call ::
  "'s env \<Rightarrow> jsval \<Rightarrow> 's world \<Rightarrow> jsval \<times> jsval \<times> 's world" where
  "save_call env v w =
     (let (saved, s) = repo_save (roleRepository env) v (db w);
          left = handed_back v (repo_written (roleRepository env) v (db w))
      in (saved, left, w\<lparr>db := s, calls := calls w @ [Save v]\<rparr>))"

definition remove_call :: "'s env \<Rightarrow> jsval \<Rightarrow> 's world \<Rightarrow> 's world" where
  "remove_call env v w =
     w\<lparr>db := repo_remove (roleRepository env) v (db w), calls := calls w @ [Remove v]\<rparr>"

section \<open>The Role handler\<close>

definition RoleDao_resource :: string where
  "RoleDao_resource = ''role''"

definition RoleDao_rolePermissionResource :: string where
  "RoleDao_rolePermissionResource = ''rolepermission''"

text \<open>Every operation takes the environment, the acting user, its arguments and the world,
  and returns the value or the exception together with the world it leaves. The
  unused optional \<open>params\<close> of \<open>getAll\<close> is left out.\<close>

definition getAll :: "'s env \<Rightarrow> User \<Rightarrow> 's world \<Rightarrow> (error + SearchResult) \<times> 's world" where
  "getAll env user w0 =
     (let (started, w1) = Date_now env w0;
          (records, w2) = find_call env [''permissions''] w1;
          isOwnerOrMember = False;
          action = READ;
          permission = getPermission env user isOwnerOrMember action RoleDao_resource
      in if granted permission then
           (case records of
              None \<Rightarrow> (Inl (RecordsNotFoundException RoleDao_resource), w2)
            | Some rs \<Rightarrow>
                (let (ended, w3) = Date_now env w2;
                     w4 = event_emit action
                       \<lparr>actor = \<lparr>actor_id = user_id user, actor_type = Person\<rparr>,
                        object = JNull,
                        resource = RoleDao_resource,
                        target = None,
                        timestamp = ended,
                        took = ended - started,
                        type = action\<rparr> w3
                 in (Inr \<lparr>data = filter_fn permission (JArr (map JObj rs)),
                          length_r = length rs,
                          total = length rs\<rparr>, w4)))
         else (Inl (UserNotAuthorizedException (user_id user) action RoleDao_resource), w2))"

definition getOne :: "'s env \<Rightarrow> User \<Rightarrow> string \<Rightarrow> 's world \<Rightarrow> (error + jsval) \<times> 's world" where
  "getOne env user i w0 =
     (let (started, w1) = Date_now env w0;
          (record, w2) = findOne_call env i [''permissions''] w1;
          isOwnerOrMember = False;
          action = READ;
          permission = getPermission env user isOwnerOrMember action RoleDao_resource
      in if granted permission then
           (case record of
              None \<Rightarrow> (Inl (RecordNotFoundException i), w2)
            | Some r \<Rightarrow>
                (let (ended, w3) = Date_now env w2;
                     w4 = event_emit action
                       \<lparr>actor = \<lparr>actor_id = user_id user, actor_type = Person\<rparr>,
                        object = JObj [(''id'', field r ''id''), (''type'', JStr RoleDao_resource)],
                        resource = RoleDao_resource,
                        target = None,
                        timestamp = ended,
                        took = ended - started,
                        type = action\<rparr> w3
                 in (Inr (filter_fn permission (JObj r)), w4)))
         else (Inl (UserNotAuthorizedException (user_id user) action RoleDao_resource), w2))"

text \<open>\<open>save\<close> reads \<open>data.id\<close> to choose the action, and after the emission reads
  \<open>filteredData.id\<close> for the log line: both raise on \<open>undefined\<close> and \<open>null\<close>.
  \<open>filteredData\<close> is the object handed to the repository, so from the call on it is
  that object as the repository left it, and this is what \<open>save\<close> returns.\<close>

definition save :: "'s env \<Rightarrow> User \<Rightarrow> jsval \<Rightarrow> 's world \<Rightarrow> (error + jsval) \<times> 's world" where
  "save env user data_in w0 =
     (let (started, w1) = Date_now env w0;
          newRecord = data_in;
          isOwnerOrMember = False
      in case get_prop data_in ''id'' of
           Inl e \<Rightarrow> (Inl e, w1)
         | Inr data_id \<Rightarrow>
             (let action = (if truthy data_id then UPDATE else CREATE);
                  permission = getPermission env user isOwnerOrMember action RoleDao_resource
              in if granted permission then
                   (let filteredData = filter_fn permission newRecord;
                        (savedData, filteredData, w2) = save_call env filteredData w1;
                        (ended, w3) = Date_now env w2;
                        w4 = event_emit action
                          \<lparr>actor = \<lparr>actor_id = user_id user, actor_type = Person\<rparr>,
                           object = JObj (AList.update ''type'' (JStr RoleDao_resource)
                                            (spread savedData)),
                           resource = RoleDao_resource,
                           target = None,
                           timestamp = ended,
                           took = ended - started,
                           type = action\<rparr> w3
                    in case get_prop filteredData ''id'' of
                         Inl e \<Rightarrow> (Inl e, w4)
                       | Inr logged \<Rightarrow> (Inr filteredData, w4))
                 else (Inl (UserNotAuthorizedException (user_id user) action RoleDao_resource),
                       w1)))"

definition remove :: "'s env \<Rightarrow> User \<Rightarrow> string \<Rightarrow> 's world \<Rightarrow> (error + bool) \<times> 's world" where
  "remove env user i w0 =
     (let (started, w1) = Date_now env w0;
          (recordToRemove, w2) = findOne_call env i [] w1;
          isOwnerOrMember = False;
          action = DELETE;
          permission = getPermission env user isOwnerOrMember action RoleDao_resource
      in if granted permission then
           (case recordToRemove of
              Some r \<Rightarrow>
                (let w3 = remove_call env (JObj r) w2;
                     (ended, w4) = Date_now env w3;
                     w5 = event_emit action
                       \<lparr>actor = \<lparr>actor_id = user_id user, actor_type = Person\<rparr>,
                        object = JObj [(''id'', JStr i), (''type'', JStr ''role'')],
                        resource = RoleDao_resource,
                        target = None,
                        timestamp = ended,
                        took = ended - started,
                        type = action\<rparr> w4
                 in (Inr True, w5))
            | None \<Rightarrow> (Inl (RecordNotFoundException i), w2))
         else (Inl (UserNotAuthorizedException (user_id user) action RoleDao_resource), w2))"

definition getPermissions ::
  "'s env \<Rightarrow> User \<Rightarrow> string \<Rightarrow> 's world \<Rightarrow> (error + jsval) \<times> 's world" where
  "getPermissions env user i w0 =
     (let (started, w1) = Date_now env w0;
          (record, w2) = findOne_call env i [''permissions''] w1;
          isOwnerOrMember = False;
          action = READ;
          permission =
            getPermission env user isOwnerOrMember action RoleDao_rolePermissionResource
      in if granted permission then
           (case record of
              None \<Rightarrow> (Inl (RecordNotFoundException i), w2)
            | Some r \<Rightarrow>
                (let (ended, w3) = Date_now env w2;
                     w4 = event_emit action
                       \<lparr>actor = \<lparr>actor_id = user_id user, actor_type = Person\<rparr>,
                        object = JNull,
                        resource = RoleDao_rolePermissionResource,
                        target = Some (JObj [(''id'', JStr i), (''type'', JStr RoleDao_resource)]),
                        timestamp = ended,
                        took = ended - started,
                        type = action\<rparr> w3
                 in (Inr (filter_fn permission (field r ''permissions'')), w4)))
         else (Inl (UserNotAuthorizedException (user_id user) action
                      RoleDao_rolePermissionResource), w2))"

text \<open>\<open>addPermission\<close> pushes the new record onto the array the fetched record holds, so
  the record filtered and the record saved are the extended one; the filter yields a
  value of its own, taken before the call of \<open>save\<close>. The activity reads
  \<open>recordToUpdate.id\<close> after that call, from the record as the repository left it. The
  log line after the emission reads \<open>newRecord.action\<close>.\<close>

definition addPermission ::
  "'s env \<Rightarrow> User \<Rightarrow> string \<Rightarrow> jsval \<Rightarrow> 's world \<Rightarrow> (error + jsval) \<times> 's world" where
  "addPermission env user i data_in w0 =
     (let (started, w1) = Date_now env w0;
          newRecord = data_in;
          isOwnerOrMember = False;
          action = CREATE;
          permission =
            getPermission env user isOwnerOrMember action RoleDao_rolePermissionResource
      in if granted permission then
           (let (recordToUpdate, w2) = findOne_call env i [''permissions''] w1
            in case recordToUpdate of
                 Some r \<Rightarrow>
                   (case push (field r ''permissions'') newRecord of
                      Inl e \<Rightarrow> (Inl e, w2)
                    | Inr pushed \<Rightarrow>
                        (let r' = AList.update ''permissions'' pushed r;
                             filteredData = filter_fn permission (JObj r');
                             (saved, recordToUpdate, w3) = save_call env (JObj r') w2;
                             (ended, w4) = Date_now env w3;
                             w5 = event_emit ADD
                               \<lparr>actor = \<lparr>actor_id = user_id user, actor_type = Person\<rparr>,
                                object = JObj [(''id'', field (fields_of recordToUpdate) ''id''),
                                               (''type'', JStr ''permission'')],
                                resource = RoleDao_rolePermissionResource,
                                target = Some (JObj [(''id'', JStr i),
                                                     (''type'', JStr RoleDao_resource)]),
                                timestamp = ended,
                                took = ended - started,
                                type = ADD\<rparr> w4
                         in case get_prop newRecord ''action'' of
                              Inl e \<Rightarrow> (Inl e, w5)
                            | Inr logged \<Rightarrow> (Inr filteredData, w5)))
               | None \<Rightarrow> (Inl (RecordNotFoundException i), w2))
         else (Inl (UserNotAuthorizedException (user_id user) action
                      RoleDao_rolePermissionResource), w1))"

text \<open>The loop of \<open>removePermission\<close> over the relations: \<open>removedItem\<close> starts
  \<open>undefined\<close> and becomes the last relation whose \<open>String(id)\<close> is
  \<open>String(permissionId)\<close>; the others are pushed to \<open>updatedPermissions\<close>.\<close>

fun removeLoop ::
  "string \<Rightarrow> jsval list \<Rightarrow> jsval \<Rightarrow> jsval list \<Rightarrow> error + (jsval \<times> jsval list)" where
  "removeLoop permissionId [] removedItem updatedPermissions =
     Inr (removedItem, updatedPermissions)"
| "removeLoop permissionId (relation # rest) removedItem updatedPermissions =
     (case get_prop relation ''id'' of
        Inl e \<Rightarrow> Inl e
      | Inr relation_id \<Rightarrow>
          if to_String relation_id = to_String (JStr permissionId)
          then removeLoop permissionId rest relation updatedPermissions
          else removeLoop permissionId rest removedItem (updatedPermissions @ [relation]))"

text \<open>When an item was removed, \<open>removePermission\<close> saves the record with the
  remaining relations; what it filters and saves next is that record as the first
  \<open>save\<close> left it. The value returned is the filter's, taken before the last
  \<open>save\<close>.\<close>

definition removePermission ::
  "'s env \<Rightarrow> User \<Rightarrow> string \<Rightarrow> string \<Rightarrow> 's world \<Rightarrow> (error + jsval) \<times> 's world" where
  "removePermission env user i permissionId w0 =
     (let (started, w1) = Date_now env w0;
          isOwnerOrMember = False;
          action = DELETE;
          permission =
            getPermission env user isOwnerOrMember action RoleDao_rolePermissionResource
      in if granted permission then
           (let (recordToUpdate, w2) = findOne_call env i [''permissions''] w1
            in case recordToUpdate of
                 Some r \<Rightarrow>
                   (case iterate (field r ''permissions'') of
                      Inl e \<Rightarrow> (Inl e, w2)
                    | Inr relations \<Rightarrow>
                        (case removeLoop permissionId relations JUndefined [] of
                           Inl e \<Rightarrow> (Inl e, w2)
                         | Inr (removedItem, updatedPermissions) \<Rightarrow>
                             (let (recordToUpdate, w3) =
                                    (if truthy removedItem then
                                       (let r1 = AList.update ''permissions''
                                                   (JArr updatedPermissions) r;
                                            (saved, left, w) = save_call env (JObj r1) w2
                                        in (left, w))
                                     else (JObj r, w2));
                                  filteredData = filter_fn permission recordToUpdate;
                                  (saved, left, w4) = save_call env recordToUpdate w3;
                                  (ended, w5) = Date_now env w4;
                                  w6 = event_emit REMOVE
                                    \<lparr>actor = \<lparr>actor_id = user_id user, actor_type = Person\<rparr>,
                                     object = JObj [(''id'', JStr permissionId),
                                                    (''type'', JStr ''permission'')],
                                     resource = RoleDao_rolePermissionResource,
                                     target = Some (JObj [(''id'', JStr i),
                                                          (''type'', JStr RoleDao_resource)]),
                                     timestamp = ended,
                                     took = ended - started,
                                     type = REMOVE\<rparr> w5
                              in (Inr filteredData, w6))))
               | None \<Rightarrow> (Inl (RecordNotFoundException i), w2))
         else (Inl (UserNotAuthorizedException (user_id user) action
                      RoleDao_rolePermissionResource), w1))"

section \<open>An in-memory repository\<close>

text \<open>Modelled from the spec: the store collaborator is outside the repository's sources
  (it is the ORM); its boundary is \<open>findAll\<close>, \<open>findOne\<close>, \<open>save\<close> and
  \<open>remove\<close> on records. This is the plainest store with that boundary, a table of
  records keyed by their \<open>id\<close>: \<open>save\<close> replaces the row with the record's
  \<open>id\<close> or appends a new row, returns the record it was given and leaves it as it
  was, \<open>remove\<close> deletes the rows with the record's \<open>id\<close>. It is used where a claim speaks of what a
  later call finds in the store.\<close>

fun upsert :: "obj \<Rightarrow> obj list \<Rightarrow> obj list" where
  "upsert r [] = [r]"
| "upsert r (x # xs) = (if field x ''id'' = field r ''id'' then r # xs else x # upsert r xs)"

definition memRepository :: "obj list Repository" where
  "memRepository =
     \<lparr>repo_find = (\<lambda>rels rows. Some rows),
      repo_findOne = (\<lambda>i rels rows. List.find (\<lambda>r. field r ''id'' = JStr i) rows),
      repo_save = (\<lambda>v rows. case v of JObj r \<Rightarrow> (v, upsert r rows) | _ \<Rightarrow> (v, rows)),
      repo_written = (\<lambda>v rows. v),
      repo_remove = (\<lambda>v rows. case v of
                        JObj r \<Rightarrow> filter (\<lambda>x. field x ''id'' \<noteq> field r ''id'') rows
                      | _ \<Rightarrow> rows)\<rparr>"

section \<open>Vocabulary of the properties\<close>

text \<open>A relation the loop can read an \<open>id\<close> from, and the string the loop compares:
  \<open>String(relation.id)\<close>. Two permissions are the same member when these strings are
  equal, which is the identity the handler itself uses.\<close>

definition readable :: "jsval \<Rightarrow> bool" where
  "readable v = (v \<noteq> JUndefined \<and> v \<noteq> JNull)"

definition id_String :: "jsval \<Rightarrow> string" where
  "id_String v = (case get_prop v ''id'' of Inr x \<Rightarrow> to_String x | Inl e \<Rightarrow> [])"

text \<open>The permission collection a record carries is membership-unique.\<close>

definition unique_members :: "jsval \<Rightarrow> bool" where
  "unique_members v =
     (case v of
        JObj r \<Rightarrow> (case field r ''permissions'' of
                     JArr ps \<Rightarrow> distinct (map id_String ps)
                   | _ \<Rightarrow> True)
      | _ \<Rightarrow> True)"

text \<open>A value has an own property of that name.\<close>

definition has_field :: "jsval \<Rightarrow> string \<Rightarrow> bool" where
  "has_field v k = (case v of JObj fs \<Rightarrow> k \<in> set (map fst fs) | _ \<Rightarrow> False)"

text \<open>What an operation added to the call log and to the event channel.\<close>

definition new_calls :: "'s world \<Rightarrow> 's world \<Rightarrow> store_call list" where
  "new_calls w w' = drop (length (calls w)) (calls w')"

definition new_events :: "'s world \<Rightarrow> 's world \<Rightarrow> (ActivityType \<times> Activity) list" where
  "new_events w w' = drop (length (events w)) (events w')"

text \<open>The audit invariant of one run from \<open>w\<close>: the events before it are kept, a run
  that returns a value added exactly one, a run that ends in an authorization or
  not-found error added none.\<close>

fun audited :: "'s world \<Rightarrow> (error + 'a) \<times> 's world \<Rightarrow> bool" where
  "audited w (Inr v, w') =
     (take (length (events w)) (events w') = events w \<and> length (new_events w w') = 1)"
| "audited w (Inl TypeError, w') = (take (length (events w)) (events w') = events w)"
| "audited w (Inl e, w') = (events w' = events w)"

text \<open>The timing of the records one run from \<open>w\<close> emitted, against the start time the
  run read first.\<close>

definition timed :: "'s env \<Rightarrow> 's world \<Rightarrow> 's world \<Rightarrow> bool" where
  "timed env w w' =
     (take (length (events w)) (events w') = events w \<and>
      list_all (\<lambda>(t, a). 0 \<le> took a \<and> clock env (ticks w) \<le> timestamp a
                        \<and> took a = timestamp a - clock env (ticks w))
        (new_events w w'))"

section \<open>Sample environments\<close>

text \<open>A filter that masks one attribute of a record (and of each record of an array), as
  the attribute specification \<open>*, !description\<close> would.\<close>

fun mask_description :: "jsval \<Rightarrow> jsval" where
  "mask_description (JObj fs) = JObj (filter (\<lambda>kv. fst kv \<noteq> ''description'') fs)"
| "mask_description (JArr xs) =
     JArr (map (\<lambda>x. case x of
                       JObj fs \<Rightarrow> JObj (filter (\<lambda>kv. fst kv \<noteq> ''description'') fs)
                     | _ \<Rightarrow> x) xs)"
| "mask_description v = v"

definition ticking :: "nat \<Rightarrow> int" where
  "ticking n = 1000 + 5 * int n"

definition admin_env :: "obj list env" where
  "admin_env =
     \<lparr>roleRepository = memRepository,
      getPermission = (\<lambda>u own a res. \<lparr>granted = True, filter_fn = mask_description\<rparr>),
      clock = ticking\<rparr>"

definition guest_env :: "obj list env" where
  "guest_env =
     \<lparr>roleRepository = memRepository,
      getPermission = (\<lambda>u own a res. \<lparr>granted = False, filter_fn = (\<lambda>v. v)\<rparr>),
      clock = ticking\<rparr>"

definition alice :: User where
  "alice = \<lparr>user_id = 7\<rparr>"

definition read_any :: jsval where
  "read_any = JObj [(''id'', JNum 1), (''resource'', JStr ''users''),
                    (''action'', JStr ''read:any''), (''attributes'', JStr ''*, !age'')]"

definition search_any :: jsval where
  "search_any = JObj [(''id'', JNum 2), (''resource'', JStr ''search''),
                      (''action'', JStr ''read:any''), (''attributes'', JStr ''*'')]"

definition user_role :: obj where
  "user_role = [(''id'', JStr ''user''),
                (''description'', JStr ''Authenticated user with basic privileges''),
                (''permissions'', JArr [search_any, read_any])]"

definition start_world :: "obj list world" where
  "start_world = \<lparr>db = [user_role], calls = [], events = [], ticks = 0\<rparr>"

text \<open>A repository whose \<open>find\<close> answers nothing at all, and a world with an empty
  table.\<close>

definition vanished_env :: "obj list env" where
  "vanished_env = admin_env\<lparr>roleRepository := memRepository\<lparr>repo_find := (\<lambda>rels rows. None)\<rparr>\<rparr>"

definition empty_world :: "obj list world" where
  "empty_world = \<lparr>db = [], calls = [], events = [], ticks = 0\<rparr>"

text \<open>Modelled from the spec: the same table behind a store that generates the \<open>id\<close> of
  a record that comes without one, the number of the new row, writes it into the object
  it was handed and returns that object, as an ORM does with a generated column.\<close>

definition assign_id :: "jsval \<Rightarrow> obj list \<Rightarrow> jsval" where
  "assign_id v rows =
     (case v of
        JObj r \<Rightarrow> (if truthy (field r ''id'') then v
                   else JObj (AList.update ''id'' (JNum (int (length rows) + 1)) r))
      | _ \<Rightarrow> v)"

definition generating_env :: "obj list env" where
  "generating_env =
     admin_env\<lparr>roleRepository :=
       memRepository\<lparr>repo_save := (\<lambda>v rows. case assign_id v rows of
                                       JObj r \<Rightarrow> (JObj r, upsert r rows)
                                     | u \<Rightarrow> (u, rows)),
                     repo_written := assign_id\<rparr>\<rparr>"

text \<open>A permission that is not in the sample role.\<close>

definition update_any :: jsval where
  "update_any = JObj [(''id'', JNum 3), (''resource'', JStr ''users''),
                      (''action'', JStr ''update:any''), (''attributes'', JStr ''*'')]"

text \<open>A call on the repository hands over a membership-unique collection: the test on
  the \<open>save\<close> calls, which carry the record.\<close>

fun saves_unique :: "store_call \<Rightarrow> bool" where
  "saves_unique (Save v) = unique_members v"
| "saves_unique c = True"

section \<open>Properties of the handler\<close>

lemmas step_defs = Date_now_def find_call_def findOne_call_def save_call_def remove_call_def
  event_emit_def

lemma getAll_denied:
  "\<not> granted (getPermission env user False READ RoleDao_resource) \<Longrightarrow>
   getAll env user w =
     (Inl (UserNotAuthorizedException (user_id user) READ RoleDao_resource),
      w\<lparr>calls := calls w @ [Find [''permissions'']], ticks := Suc (ticks w)\<rparr>)"
  by (simp add: getAll_def step_defs)

lemma getOne_denied:
  "\<not> granted (getPermission env user False READ RoleDao_resource) \<Longrightarrow>
   getOne env user i w =
     (Inl (UserNotAuthorizedException (user_id user) READ RoleDao_resource),
      w\<lparr>calls := calls w @ [FindOne i [''permissions'']], ticks := Suc (ticks w)\<rparr>)"
  by (simp add: getOne_def step_defs)

lemma save_denied:
  "get_prop data_in ''id'' = Inr x \<Longrightarrow>
   \<not> granted (getPermission env user False (if truthy x then UPDATE else CREATE)
                 RoleDao_resource) \<Longrightarrow>
   save env user data_in w =
     (Inl (UserNotAuthorizedException (user_id user) (if truthy x then UPDATE else CREATE)
             RoleDao_resource),
      w\<lparr>ticks := Suc (ticks w)\<rparr>)"
  by (simp add: save_def step_defs)

lemma remove_denied:
  "\<not> granted (getPermission env user False DELETE RoleDao_resource) \<Longrightarrow>
   remove env user i w =
     (Inl (UserNotAuthorizedException (user_id user) DELETE RoleDao_resource),
      w\<lparr>calls := calls w @ [FindOne i []], ticks := Suc (ticks w)\<rparr>)"
  by (simp add: remove_def step_defs)

lemma getPermissions_denied:
  "\<not> granted (getPermission env user False READ RoleDao_rolePermissionResource) \<Longrightarrow>
   getPermissions env user i w =
     (Inl (UserNotAuthorizedException (user_id user) READ RoleDao_rolePermissionResource),
      w\<lparr>calls := calls w @ [FindOne i [''permissions'']], ticks := Suc (ticks w)\<rparr>)"
  by (simp add: getPermissions_def step_defs)

lemma addPermission_denied:
  "\<not> granted (getPermission env user False CREATE RoleDao_rolePermissionResource) \<Longrightarrow>
   addPermission env user i item w =
     (Inl (UserNotAuthorizedException (user_id user) CREATE RoleDao_rolePermissionResource),
      w\<lparr>ticks := Suc (ticks w)\<rparr>)"
  by (simp add: addPermission_def step_defs)

lemma removePermission_denied:
  "\<not> granted (getPermission env user False DELETE RoleDao_rolePermissionResource) \<Longrightarrow>
   removePermission env user i permissionId w =
     (Inl (UserNotAuthorizedException (user_id user) DELETE RoleDao_rolePermissionResource),
      w\<lparr>ticks := Suc (ticks w)\<rparr>)"
  by (simp add: removePermission_def step_defs)

text \<open>Claim C1. In each of the seven operations, when permission resolution for the
  operation's action and resource answers \<open>granted = false\<close>, the operation raises
  \<open>UserNotAuthorizedException\<close> with the user's id, that action and that resource, and
  the event channel holds what it held before: no activity record is emitted. For
  \<open>save\<close> the action is \<open>UPDATE\<close> or \<open>CREATE\<close> by the truthiness of \<open>data.id\<close>,
  so resolution is reached when \<open>data.id\<close> can be read.\<close>

theorem denied_raises_without_audit:
  "(\<not> granted (getPermission env user False READ RoleDao_resource) \<longrightarrow>
      fst (getAll env user w) =
        Inl (UserNotAuthorizedException (user_id user) READ RoleDao_resource)
      \<and> events (snd (getAll env user w)) = events w
      \<and> fst (getOne env user i w) =
        Inl (UserNotAuthorizedException (user_id user) READ RoleDao_resource)
      \<and> events (snd (getOne env user i w)) = events w)
   \<and> (\<forall>x. get_prop data_in ''id'' = Inr x
         \<and> \<not> granted (getPermission env user False (if truthy x then UPDATE else CREATE)
                        RoleDao_resource) \<longrightarrow>
      fst (save env user data_in w) =
        Inl (UserNotAuthorizedException (user_id user) (if truthy x then UPDATE else CREATE)
               RoleDao_resource)
      \<and> events (snd (save env user data_in w)) = events w)
   \<and> (\<not> granted (getPermission env user False DELETE RoleDao_resource) \<longrightarrow>
      fst (remove env user i w) =
        Inl (UserNotAuthorizedException (user_id user) DELETE RoleDao_resource)
      \<and> events (snd (remove env user i w)) = events w)
   \<and> (\<not> granted (getPermission env user False READ RoleDao_rolePermissionResource) \<longrightarrow>
      fst (getPermissions env user i w) =
        Inl (UserNotAuthorizedException (user_id user) READ RoleDao_rolePermissionResource)
      \<and> events (snd (getPermissions env user i w)) = events w)
   \<and> (\<not> granted (getPermission env user False CREATE RoleDao_rolePermissionResource) \<longrightarrow>
      fst (addPermission env user i item w) =
        Inl (UserNotAuthorizedException (user_id user) CREATE RoleDao_rolePermissionResource)
      \<and> events (snd (addPermission env user i item w)) = events w)
   \<and> (\<not> granted (getPermission env user False DELETE RoleDao_rolePermissionResource) \<longrightarrow>
      fst (removePermission env user i permissionId w) =
        Inl (UserNotAuthorizedException (user_id user) DELETE RoleDao_rolePermissionResource)
      \<and> events (snd (removePermission env user i permissionId w)) = events w)"
  by (simp add: getAll_denied getOne_denied save_denied remove_denied getPermissions_denied
      addPermission_denied removePermission_denied)

text \<open>The seven operations run for a user without any grant.\<close>

theorem denied_raises_without_audit_witness:
  "\<not> granted (getPermission guest_env alice False READ RoleDao_resource)
   \<and> fst (getAll guest_env alice start_world) = Inl (UserNotAuthorizedException 7 READ ''role'')
   \<and> events (snd (getAll guest_env alice start_world)) = []
   \<and> fst (getOne guest_env alice ''user'' start_world) =
       Inl (UserNotAuthorizedException 7 READ ''role'')
   \<and> events (snd (getOne guest_env alice ''user'' start_world)) = []
   \<and> get_prop (JObj [(''id'', JStr ''user'')]) ''id'' = Inr (JStr ''user'')
   \<and> \<not> granted (getPermission guest_env alice False UPDATE RoleDao_resource)
   \<and> fst (save guest_env alice (JObj [(''id'', JStr ''user'')]) start_world) =
       Inl (UserNotAuthorizedException 7 UPDATE ''role'')
   \<and> events (snd (save guest_env alice (JObj [(''id'', JStr ''user'')]) start_world)) = []
   \<and> \<not> granted (getPermission guest_env alice False DELETE RoleDao_resource)
   \<and> fst (remove guest_env alice ''user'' start_world) =
       Inl (UserNotAuthorizedException 7 DELETE ''role'')
   \<and> events (snd (remove guest_env alice ''user'' start_world)) = []
   \<and> \<not> granted (getPermission guest_env alice False READ RoleDao_rolePermissionResource)
   \<and> fst (getPermissions guest_env alice ''user'' start_world) =
       Inl (UserNotAuthorizedException 7 READ ''rolepermission'')
   \<and> events (snd (getPermissions guest_env alice ''user'' start_world)) = []
   \<and> \<not> granted (getPermission guest_env alice False CREATE RoleDao_rolePermissionResource)
   \<and> fst (addPermission guest_env alice ''user'' read_any start_world) =
       Inl (UserNotAuthorizedException 7 CREATE ''rolepermission'')
   \<and> events (snd (addPermission guest_env alice ''user'' read_any start_world)) = []
   \<and> fst (removePermission guest_env alice ''user'' ''1'' start_world) =
       Inl (UserNotAuthorizedException 7 DELETE ''rolepermission'')
   \<and> events (snd (removePermission guest_env alice ''user'' ''1'' start_world)) = []"
  using denied_raises_without_audit
    [of guest_env alice start_world "''user''" "JObj [(''id'', JStr ''user'')]" read_any "''1''"]
  by (simp add: guest_env_def alice_def start_world_def RoleDao_resource_def
      RoleDao_rolePermissionResource_def field_def)

lemma get_prop_error: "get_prop v k = Inl e \<Longrightarrow> e = TypeError"
  by (cases v) auto

lemma audited_unchanged: "events w' = events w \<Longrightarrow> audited w (Inl e, w')"
  by (cases e) simp_all

lemma audited_getAll: "audited w (getAll env user w)"
  by (auto simp: getAll_def step_defs new_events_def Let_def audited_unchanged
      split: prod.splits option.splits)

lemma audited_getOne: "audited w (getOne env user i w)"
  by (auto simp: getOne_def step_defs new_events_def Let_def audited_unchanged
      split: prod.splits option.splits)

lemma audited_save: "audited w (save env user data_in w)"
  by (auto simp: save_def step_defs new_events_def Let_def audited_unchanged
      dest!: get_prop_error split: prod.splits option.splits sum.splits)

lemma audited_remove: "audited w (remove env user i w)"
  by (auto simp: remove_def step_defs new_events_def Let_def audited_unchanged
      split: prod.splits option.splits)

lemma audited_getPermissions: "audited w (getPermissions env user i w)"
  by (auto simp: getPermissions_def step_defs new_events_def Let_def audited_unchanged
      split: prod.splits option.splits)

lemma audited_addPermission: "audited w (addPermission env user i item w)"
  by (auto simp: addPermission_def step_defs new_events_def Let_def audited_unchanged
      dest!: get_prop_error split: prod.splits option.splits sum.splits)

lemma audited_removePermission: "audited w (removePermission env user i permissionId w)"
  by (auto simp: removePermission_def step_defs new_events_def Let_def audited_unchanged
      split: prod.splits option.splits sum.splits)

text \<open>Claim C3. Every run of every operation is \<open>audited\<close>: the records emitted before
  it stay, a run that returns a value emitted exactly one record, whatever the number
  of \<open>save\<close> calls it made on the repository, and a run that ends in
  \<open>UserNotAuthorizedException\<close>, \<open>RecordNotFoundException\<close> or
  \<open>RecordsNotFoundException\<close> emitted none.\<close>

theorem one_audit_record_per_success:
  "audited w (getAll env user w)
   \<and> audited w (getOne env user i w)
   \<and> audited w (save env user data_in w)
   \<and> audited w (remove env user i w)
   \<and> audited w (getPermissions env user i w)
   \<and> audited w (addPermission env user i item w)
   \<and> audited w (removePermission env user i permissionId w)"
  by (simp add: audited_getAll audited_getOne audited_save audited_remove
      audited_getPermissions audited_addPermission audited_removePermission)

text \<open>Removing a member saves the record twice and emits one record; a \<open>getOne\<close> of
  an absent role ends in \<open>RecordNotFoundException\<close> and emits none.\<close>

theorem one_audit_record_per_success_witness:
  "audited start_world (removePermission admin_env alice ''user'' ''1'' start_world)
   \<and> \<not> isl (fst (removePermission admin_env alice ''user'' ''1'' start_world))
   \<and> new_calls start_world (snd (removePermission admin_env alice ''user'' ''1'' start_world)) =
       [FindOne ''user'' [''permissions''],
        Save (JObj [(''id'', JStr ''user''),
                    (''description'', JStr ''Authenticated user with basic privileges''),
                    (''permissions'', JArr [search_any])]),
        Save (JObj [(''id'', JStr ''user''),
                    (''description'', JStr ''Authenticated user with basic privileges''),
                    (''permissions'', JArr [search_any])])]
   \<and> length (new_events start_world
               (snd (removePermission admin_env alice ''user'' ''1'' start_world))) = 1
   \<and> audited start_world (getOne admin_env alice ''nobody'' start_world)
   \<and> fst (getOne admin_env alice ''nobody'' start_world) = Inl (RecordNotFoundException ''nobody'')
   \<and> new_events start_world (snd (getOne admin_env alice ''nobody'' start_world)) = []"
proof -
  have run: "removePermission admin_env alice ''user'' ''1'' start_world =
      (Inr (JObj [(''id'', JStr ''user''), (''permissions'', JArr [search_any])]),
       \<lparr>db = [[(''id'', JStr ''user''),
                (''description'', JStr ''Authenticated user with basic privileges''),
                (''permissions'', JArr [search_any])]],
        calls = [FindOne ''user'' [''permissions''],
          Save (JObj [(''id'', JStr ''user''),
                      (''description'', JStr ''Authenticated user with basic privileges''),
                      (''permissions'', JArr [search_any])]),
          Save (JObj [(''id'', JStr ''user''),
                      (''description'', JStr ''Authenticated user with basic privileges''),
                      (''permissions'', JArr [search_any])])],
        events = [(REMOVE,
           \<lparr>actor = \<lparr>actor_id = 7, actor_type = Person\<rparr>,
            object = JObj [(''id'', JStr ''1''), (''type'', JStr ''permission'')],
            resource = ''rolepermission'',
            target = Some (JObj [(''id'', JStr ''user''), (''type'', JStr ''role'')]),
            timestamp = 1005, took = 5, type = REMOVE\<rparr>)],
        ticks = 2\<rparr>)"
    by (simp add: removePermission_def step_defs Let_def admin_env_def memRepository_def
        start_world_def user_role_def field_def search_any_def read_any_def digits.simps
        alice_def ticking_def RoleDao_resource_def RoleDao_rolePermissionResource_def)
  have miss: "getOne admin_env alice ''nobody'' start_world =
      (Inl (RecordNotFoundException ''nobody''),
       start_world\<lparr>calls := [FindOne ''nobody'' [''permissions'']], ticks := 1\<rparr>)"
    by (simp add: getOne_def step_defs Let_def admin_env_def memRepository_def
        start_world_def user_role_def field_def)
  have c: "new_calls start_world
      (snd (removePermission admin_env alice ''user'' ''1'' start_world)) =
       [FindOne ''user'' [''permissions''],
        Save (JObj [(''id'', JStr ''user''),
                    (''description'', JStr ''Authenticated user with basic privileges''),
                    (''permissions'', JArr [search_any])]),
        Save (JObj [(''id'', JStr ''user''),
                    (''description'', JStr ''Authenticated user with basic privileges''),
                    (''permissions'', JArr [search_any])])]"
    unfolding run by (simp add: new_calls_def start_world_def)
  have e: "length (new_events start_world
               (snd (removePermission admin_env alice ''user'' ''1'' start_world))) = 1"
    unfolding run by (simp add: new_events_def start_world_def)
  have ok: "\<not> isl (fst (removePermission admin_env alice ''user'' ''1'' start_world))"
    unfolding run by simp
  have none: "new_events start_world (snd (getOne admin_env alice ''nobody'' start_world)) = []"
    unfolding miss by (simp add: new_events_def)
  have nf: "fst (getOne admin_env alice ''nobody'' start_world) =
      Inl (RecordNotFoundException ''nobody'')"
    unfolding miss by simp
  from one_audit_record_per_success
    [of start_world admin_env alice "''user''" JNull JNull "''1''"]
    one_audit_record_per_success
    [of start_world admin_env alice "''nobody''" JNull JNull "''1''"]
    c e ok none nf
  show ?thesis
    by blast
qed

lemma mono_next: "mono (f :: nat \<Rightarrow> int) \<Longrightarrow> f n \<le> f (Suc n)"
  by (rule monoD) simp_all

lemma timed_getAll: "mono (clock env) \<Longrightarrow> timed env w (snd (getAll env user w))"
  by (auto simp: getAll_def step_defs new_events_def timed_def Let_def mono_next
      split: prod.splits option.splits)

lemma timed_getOne: "mono (clock env) \<Longrightarrow> timed env w (snd (getOne env user i w))"
  by (auto simp: getOne_def step_defs new_events_def timed_def Let_def mono_next
      split: prod.splits option.splits)

lemma timed_save: "mono (clock env) \<Longrightarrow> timed env w (snd (save env user data_in w))"
  by (auto simp: save_def step_defs new_events_def timed_def Let_def mono_next
      split: prod.splits option.splits sum.splits)

lemma timed_remove: "mono (clock env) \<Longrightarrow> timed env w (snd (remove env user i w))"
  by (auto simp: remove_def step_defs new_events_def timed_def Let_def mono_next
      split: prod.splits option.splits)

lemma timed_getPermissions:
  "mono (clock env) \<Longrightarrow> timed env w (snd (getPermissions env user i w))"
  by (auto simp: getPermissions_def step_defs new_events_def timed_def Let_def mono_next
      split: prod.splits option.splits)

lemma timed_addPermission:
  "mono (clock env) \<Longrightarrow> timed env w (snd (addPermission env user i item w))"
  by (auto simp: addPermission_def step_defs new_events_def timed_def Let_def mono_next
      split: prod.splits option.splits sum.splits)

lemma timed_removePermission:
  "mono (clock env) \<Longrightarrow> timed env w (snd (removePermission env user i permissionId w))"
  by (auto simp: removePermission_def step_defs new_events_def timed_def Let_def mono_next
      split: prod.splits option.splits sum.splits)

text \<open>Claim C8. With non-decreasing clock readings, every activity record a run emits has
  \<open>took \<ge> 0\<close>, a \<open>timestamp\<close> at or after the start time the run read first, and
  \<open>took\<close> equal to the \<open>timestamp\<close> minus that start time.\<close>

theorem audit_timing:
  assumes "mono (clock env)"
  shows "timed env w (snd (getAll env user w))
   \<and> timed env w (snd (getOne env user i w))
   \<and> timed env w (snd (save env user data_in w))
   \<and> timed env w (snd (remove env user i w))
   \<and> timed env w (snd (getPermissions env user i w))
   \<and> timed env w (snd (addPermission env user i item w))
   \<and> timed env w (snd (removePermission env user i permissionId w))"
  using assms
  by (simp add: timed_getAll timed_getOne timed_save timed_remove timed_getPermissions
      timed_addPermission timed_removePermission)

lemma mono_ticking: "mono ticking"
  by (simp add: mono_def ticking_def)

text \<open>A granted \<open>getOne\<close> on a clock that advances five milliseconds per reading.\<close>

theorem audit_timing_witness:
  "mono (clock admin_env)
   \<and> new_events start_world (snd (getOne admin_env alice ''user'' start_world)) =
       [(READ, \<lparr>actor = \<lparr>actor_id = 7, actor_type = Person\<rparr>,
                object = JObj [(''id'', JStr ''user''), (''type'', JStr ''role'')],
                resource = ''role'', target = None, timestamp = 1005, took = 5, type = READ\<rparr>)]
   \<and> timed admin_env start_world (snd (getOne admin_env alice ''user'' start_world))"
proof -
  have m: "mono (clock admin_env)"
    by (simp add: admin_env_def mono_ticking)
  have e: "new_events start_world (snd (getOne admin_env alice ''user'' start_world)) =
       [(READ, \<lparr>actor = \<lparr>actor_id = 7, actor_type = Person\<rparr>,
                object = JObj [(''id'', JStr ''user''), (''type'', JStr ''role'')],
                resource = ''role'', target = None, timestamp = 1005, took = 5, type = READ\<rparr>)]"
    by (simp add: getOne_def step_defs new_events_def admin_env_def memRepository_def
        start_world_def user_role_def alice_def field_def ticking_def RoleDao_resource_def)
  from audit_timing [OF m, of start_world alice "''user''"] m e show ?thesis
    by simp
qed

text \<open>Claim C2 says that a denied operation makes no call on the store, no fetch included.
  A denied \<open>getAll\<close> has called \<open>find\<close>.\<close>

theorem denied_getAll_fetches_counterexample:
  "\<not> granted (getPermission guest_env alice False READ RoleDao_resource)
   \<and> new_calls start_world (snd (getAll guest_env alice start_world)) = [Find [''permissions'']]"
  by (simp add: getAll_def step_defs new_calls_def guest_env_def start_world_def)

text \<open>Claim C2, amended. A denied operation makes no \<open>save\<close> and no \<open>remove\<close> call
  and leaves the store as it was. \<open>save\<close>, \<open>addPermission\<close> and
  \<open>removePermission\<close> make no call at all; \<open>getAll\<close>, \<open>getOne\<close>, \<open>remove\<close>
  and \<open>getPermissions\<close> make exactly one call, their fetch.\<close>

theorem denied_leaves_store_unwritten:
  "(\<not> granted (getPermission env user False READ RoleDao_resource) \<longrightarrow>
      new_calls w (snd (getAll env user w)) = [Find [''permissions'']]
      \<and> db (snd (getAll env user w)) = db w
      \<and> new_calls w (snd (getOne env user i w)) = [FindOne i [''permissions'']]
      \<and> db (snd (getOne env user i w)) = db w)
   \<and> (\<forall>x. get_prop data_in ''id'' = Inr x
         \<and> \<not> granted (getPermission env user False (if truthy x then UPDATE else CREATE)
                        RoleDao_resource) \<longrightarrow>
      new_calls w (snd (save env user data_in w)) = []
      \<and> db (snd (save env user data_in w)) = db w)
   \<and> (\<not> granted (getPermission env user False DELETE RoleDao_resource) \<longrightarrow>
      new_calls w (snd (remove env user i w)) = [FindOne i []]
      \<and> db (snd (remove env user i w)) = db w)
   \<and> (\<not> granted (getPermission env user False READ RoleDao_rolePermissionResource) \<longrightarrow>
      new_calls w (snd (getPermissions env user i w)) = [FindOne i [''permissions'']]
      \<and> db (snd (getPermissions env user i w)) = db w)
   \<and> (\<not> granted (getPermission env user False CREATE RoleDao_rolePermissionResource) \<longrightarrow>
      new_calls w (snd (addPermission env user i item w)) = []
      \<and> db (snd (addPermission env user i item w)) = db w)
   \<and> (\<not> granted (getPermission env user False DELETE RoleDao_rolePermissionResource) \<longrightarrow>
      new_calls w (snd (removePermission env user i permissionId w)) = []
      \<and> db (snd (removePermission env user i permissionId w)) = db w)"
  by (simp add: getAll_denied getOne_denied save_denied remove_denied getPermissions_denied
      addPermission_denied removePermission_denied new_calls_def)

text \<open>The calls of the denied operations of a user without any grant.\<close>

theorem denied_leaves_store_unwritten_witness:
  "\<not> granted (getPermission guest_env alice False READ RoleDao_resource)
   \<and> new_calls start_world (snd (getOne guest_env alice ''user'' start_world)) =
       [FindOne ''user'' [''permissions'']]
   \<and> get_prop (JObj [(''id'', JStr ''user'')]) ''id'' = Inr (JStr ''user'')
   \<and> \<not> granted (getPermission guest_env alice False UPDATE RoleDao_resource)
   \<and> new_calls start_world
        (snd (save guest_env alice (JObj [(''id'', JStr ''user'')]) start_world)) = []
   \<and> \<not> granted (getPermission guest_env alice False DELETE RoleDao_resource)
   \<and> new_calls start_world (snd (remove guest_env alice ''user'' start_world)) =
       [FindOne ''user'' []]
   \<and> db (snd (remove guest_env alice ''user'' start_world)) = [user_role]
   \<and> \<not> granted (getPermission guest_env alice False READ RoleDao_rolePermissionResource)
   \<and> new_calls start_world (snd (getPermissions guest_env alice ''user'' start_world)) =
       [FindOne ''user'' [''permissions'']]
   \<and> \<not> granted (getPermission guest_env alice False CREATE RoleDao_rolePermissionResource)
   \<and> new_calls start_world (snd (addPermission guest_env alice ''user'' read_any start_world)) = []
   \<and> \<not> granted (getPermission guest_env alice False DELETE RoleDao_rolePermissionResource)
   \<and> new_calls start_world (snd (removePermission guest_env alice ''user'' ''1'' start_world)) = []"
  using denied_leaves_store_unwritten
    [of guest_env alice start_world "''user''" "JObj [(''id'', JStr ''user'')]" read_any "''1''"]
  by (simp add: guest_env_def start_world_def field_def)

lemma handed_back_same: "handed_back v v = v"
  by (cases v) simp_all

lemma save_granted:
  assumes "get_prop data_in ''id'' = Inr x"
    and "granted (getPermission env user False (if truthy x then UPDATE else CREATE)
                    RoleDao_resource)"
  shows "save env user data_in w =
     (let action = (if truthy x then UPDATE else CREATE);
          filteredData = filter_fn (getPermission env user False action RoleDao_resource) data_in;
          stored = repo_save (roleRepository env) filteredData (db w);
          left = handed_back filteredData
                   (repo_written (roleRepository env) filteredData (db w))
      in (case get_prop left ''id'' of
            Inl e \<Rightarrow> Inl e
          | Inr logged \<Rightarrow> Inr left,
          \<lparr>db = snd stored,
           calls = calls w @ [Save filteredData],
           events = events w @
             [(action,
               \<lparr>actor = \<lparr>actor_id = user_id user, actor_type = Person\<rparr>,
                object = JObj (AList.update ''type'' (JStr RoleDao_resource)
                                 (spread (fst stored))),
                resource = RoleDao_resource,
                target = None,
                timestamp = clock env (Suc (ticks w)),
                took = clock env (Suc (ticks w)) - clock env (ticks w),
                type = action\<rparr>)],
           ticks = Suc (Suc (ticks w))\<rparr>))"
  using assms
  by (simp add: save_def step_defs Let_def split: prod.splits sum.splits)

text \<open>Claim C4. A granted \<open>save\<close> makes one call on the repository, \<open>save\<close> of the
  resolved filter applied to the caller's data; so a property the filter removed is not
  among the properties of what is persisted.\<close>

theorem save_persists_filtered_input:
  assumes "get_prop data_in ''id'' = Inr x"
    and "granted (getPermission env user False (if truthy x then UPDATE else CREATE)
                    RoleDao_resource)"
  shows "new_calls w (snd (save env user data_in w)) =
           [Save (filter_fn (getPermission env user False
                               (if truthy x then UPDATE else CREATE) RoleDao_resource) data_in)]
     \<and> (\<forall>k v. Save v \<in> set (new_calls w (snd (save env user data_in w)))
            \<and> \<not> has_field (filter_fn (getPermission env user False
                               (if truthy x then UPDATE else CREATE) RoleDao_resource) data_in) k
          \<longrightarrow> \<not> has_field v k)"
  by (simp add: save_granted [OF assms] new_calls_def Let_def)

text \<open>An update under a filter that masks \<open>description\<close>.\<close>

theorem save_persists_filtered_input_witness:
  "get_prop (JObj [(''id'', JStr ''editor''), (''description'', JStr ''Edits'')]) ''id'' =
     Inr (JStr ''editor'')
   \<and> granted (getPermission admin_env alice False UPDATE RoleDao_resource)
   \<and> new_calls start_world
       (snd (save admin_env alice
               (JObj [(''id'', JStr ''editor''), (''description'', JStr ''Edits'')]) start_world)) =
       [Save (JObj [(''id'', JStr ''editor'')])]
   \<and> \<not> has_field (JObj [(''id'', JStr ''editor'')]) ''description''"
proof -
  have p: "get_prop (JObj [(''id'', JStr ''editor''), (''description'', JStr ''Edits'')]) ''id'' =
     Inr (JStr ''editor'')"
    by (simp add: field_def)
  have g: "granted (getPermission admin_env alice False
             (if truthy (JStr ''editor'') then UPDATE else CREATE) RoleDao_resource)"
    by (simp add: admin_env_def)
  from save_persists_filtered_input [OF p g, of start_world] p g show ?thesis
    by (simp add: admin_env_def has_field_def)
qed

lemma getAll_granted:
  assumes "granted (getPermission env user False READ RoleDao_resource)"
  shows "fst (getAll env user w) =
     (case repo_find (roleRepository env) [''permissions''] (db w) of
        None \<Rightarrow> Inl (RecordsNotFoundException RoleDao_resource)
      | Some rs \<Rightarrow>
          Inr \<lparr>data = filter_fn (getPermission env user False READ RoleDao_resource)
                         (JArr (map JObj rs)),
               length_r = length rs,
               total = length rs\<rparr>)"
  using assms
  by (simp add: getAll_def step_defs Let_def split: prod.splits option.splits)

text \<open>Claim C7. A granted \<open>getAll\<close> whose \<open>find\<close> yields rows returns them filtered
  with \<open>length\<close> and \<open>total\<close> their number, zero for the empty collection; it raises
  \<open>RecordsNotFoundException\<close> exactly when \<open>find\<close> yields nothing, which the empty
  collection is not.\<close>

theorem empty_list_is_success:
  assumes "granted (getPermission env user False READ RoleDao_resource)"
  shows "(\<forall>rs. repo_find (roleRepository env) [''permissions''] (db w) = Some rs \<longrightarrow>
            fst (getAll env user w) =
              Inr \<lparr>data = filter_fn (getPermission env user False READ RoleDao_resource)
                             (JArr (map JObj rs)),
                   length_r = length rs,
                   total = length rs\<rparr>)
     \<and> (repo_find (roleRepository env) [''permissions''] (db w) = Some [] \<longrightarrow>
            (\<exists>d. fst (getAll env user w) = Inr \<lparr>data = d, length_r = 0, total = 0\<rparr>))
     \<and> (\<forall>res. fst (getAll env user w) = Inl (RecordsNotFoundException res) \<longrightarrow>
            repo_find (roleRepository env) [''permissions''] (db w) = None)
     \<and> (repo_find (roleRepository env) [''permissions''] (db w) = None \<longrightarrow>
            fst (getAll env user w) = Inl (RecordsNotFoundException RoleDao_resource))"
  by (simp add: getAll_granted [OF assms] split: option.splits)

text \<open>An empty table, and a repository that answers nothing.\<close>

theorem empty_list_is_success_witness:
  "granted (getPermission admin_env alice False READ RoleDao_resource)
   \<and> repo_find (roleRepository admin_env) [''permissions''] (db empty_world) = Some []
   \<and> fst (getAll admin_env alice empty_world) = Inr \<lparr>data = JArr [], length_r = 0, total = 0\<rparr>
   \<and> granted (getPermission vanished_env alice False READ RoleDao_resource)
   \<and> repo_find (roleRepository vanished_env) [''permissions''] (db empty_world) = None
   \<and> fst (getAll vanished_env alice empty_world) = Inl (RecordsNotFoundException ''role'')"
proof -
  have g: "granted (getPermission admin_env alice False READ RoleDao_resource)"
    by (simp add: admin_env_def)
  have g': "granted (getPermission vanished_env alice False READ RoleDao_resource)"
    by (simp add: vanished_env_def admin_env_def)
  from empty_list_is_success [OF g, of empty_world] empty_list_is_success [OF g', of empty_world]
    g g'
  show ?thesis
    by (simp add: admin_env_def vanished_env_def memRepository_def empty_world_def
        RoleDao_resource_def)
qed

text \<open>Claim C10 says that a granted \<open>save\<close> returns the filtered input as it was before
  persistence, free of the fields the store generates. \<open>save\<close> returns the object it
  handed to the repository: with a store that writes the generated \<open>id\<close> into it, the
  value returned has that \<open>id\<close>, which the filtered input has not.\<close>

theorem save_returns_stored_object_counterexample:
  "get_prop (JObj [(''name'', JStr ''editor''), (''description'', JStr ''Edits'')]) ''id'' =
     Inr JUndefined
   \<and> granted (getPermission generating_env alice False CREATE RoleDao_resource)
   \<and> filter_fn (getPermission generating_env alice False CREATE RoleDao_resource)
        (JObj [(''name'', JStr ''editor''), (''description'', JStr ''Edits'')]) =
       JObj [(''name'', JStr ''editor'')]
   \<and> fst (save generating_env alice
            (JObj [(''name'', JStr ''editor''), (''description'', JStr ''Edits'')]) start_world) =
       Inr (JObj [(''name'', JStr ''editor''), (''id'', JNum 2)])
   \<and> has_field (JObj [(''name'', JStr ''editor''), (''id'', JNum 2)]) ''id''
   \<and> \<not> has_field (JObj [(''name'', JStr ''editor'')]) ''id''"
  by (simp add: save_def step_defs Let_def generating_env_def admin_env_def memRepository_def
      assign_id_def start_world_def field_def has_field_def)

text \<open>Claim C10, amended. A granted \<open>save\<close> returns the object it handed to the
  repository's \<open>save\<close>, as that call leaves it, and not the record the call returned
  (the log line that precedes the return reads the object's \<open>id\<close>, which raises when
  the object is \<open>undefined\<close> or \<open>null\<close>): this is the filter applied to the caller's
  data when the repository writes nothing into the object it is handed. The object of
  the one activity record emitted is built from the record the repository returned.\<close>

theorem save_returns_handed_object:
  assumes "get_prop data_in ''id'' = Inr x"
    and "granted (getPermission env user False (if truthy x then UPDATE else CREATE)
                    RoleDao_resource)"
  shows "fst (save env user data_in w) =
           (case get_prop
                   (handed_back
                      (filter_fn (getPermission env user False
                         (if truthy x then UPDATE else CREATE) RoleDao_resource) data_in)
                      (repo_written (roleRepository env)
                         (filter_fn (getPermission env user False
                            (if truthy x then UPDATE else CREATE) RoleDao_resource) data_in)
                         (db w))) ''id'' of
              Inl e \<Rightarrow> Inl e
            | Inr logged \<Rightarrow>
                Inr (handed_back
                       (filter_fn (getPermission env user False
                          (if truthy x then UPDATE else CREATE) RoleDao_resource) data_in)
                       (repo_written (roleRepository env)
                          (filter_fn (getPermission env user False
                             (if truthy x then UPDATE else CREATE) RoleDao_resource) data_in)
                          (db w))))
     \<and> (repo_written (roleRepository env)
           (filter_fn (getPermission env user False
              (if truthy x then UPDATE else CREATE) RoleDao_resource) data_in) (db w) =
         filter_fn (getPermission env user False
              (if truthy x then UPDATE else CREATE) RoleDao_resource) data_in \<longrightarrow>
         fst (save env user data_in w) =
           (case get_prop (filter_fn (getPermission env user False
                    (if truthy x then UPDATE else CREATE) RoleDao_resource) data_in) ''id'' of
              Inl e \<Rightarrow> Inl e
            | Inr logged \<Rightarrow>
                Inr (filter_fn (getPermission env user False
                       (if truthy x then UPDATE else CREATE) RoleDao_resource) data_in)))
     \<and> map (\<lambda>(t, a). object a) (new_events w (snd (save env user data_in w))) =
         [JObj (AList.update ''type'' (JStr RoleDao_resource)
                 (spread (fst (repo_save (roleRepository env)
                    (filter_fn (getPermission env user False
                       (if truthy x then UPDATE else CREATE) RoleDao_resource) data_in)
                    (db w)))))]"
  by (auto simp: save_granted [OF assms] new_events_def Let_def handed_back_same
      split: sum.splits)

text \<open>An update on the in-memory repository, which writes nothing into the record, and a
  creation on the store that generates the \<open>id\<close>.\<close>

theorem save_returns_handed_object_witness:
  "get_prop (JObj [(''id'', JStr ''editor''), (''description'', JStr ''Edits'')]) ''id'' =
     Inr (JStr ''editor'')
   \<and> granted (getPermission admin_env alice False UPDATE RoleDao_resource)
   \<and> repo_written (roleRepository admin_env) (JObj [(''id'', JStr ''editor'')]) [user_role] =
       JObj [(''id'', JStr ''editor'')]
   \<and> fst (save admin_env alice
            (JObj [(''id'', JStr ''editor''), (''description'', JStr ''Edits'')]) start_world) =
       Inr (JObj [(''id'', JStr ''editor'')])
   \<and> map (\<lambda>(t, a). object a)
        (new_events start_world
          (snd (save admin_env alice
                 (JObj [(''id'', JStr ''editor''), (''description'', JStr ''Edits'')])
                 start_world))) =
       [JObj [(''id'', JStr ''editor''), (''type'', JStr ''role'')]]"
proof -
  have p: "get_prop (JObj [(''id'', JStr ''editor''), (''description'', JStr ''Edits'')]) ''id'' =
     Inr (JStr ''editor'')"
    by (simp add: field_def)
  have g: "granted (getPermission admin_env alice False
             (if truthy (JStr ''editor'') then UPDATE else CREATE) RoleDao_resource)"
    by (simp add: admin_env_def)
  from save_returns_handed_object [OF p g, of start_world] p g show ?thesis
    by (simp add: admin_env_def memRepository_def start_world_def field_def
        RoleDao_resource_def)
qed

lemma id_String_of: "get_prop rel ''id'' = Inr x \<Longrightarrow> id_String rel = to_String x"
  by (simp add: id_String_def)

lemma readable_get_prop: "readable v \<Longrightarrow> \<exists>x. get_prop v k = Inr x"
  by (cases v) (simp_all add: readable_def)

lemma removeLoop_readable:
  "list_all readable rels \<Longrightarrow>
   removeLoop pid rels removedItem updatedPermissions =
     Inr (if pid \<in> set (map id_String rels)
          then last (filter (\<lambda>rel. id_String rel = pid) rels)
          else removedItem,
          updatedPermissions @ filter (\<lambda>rel. id_String rel \<noteq> pid) rels)"
proof (induction rels arbitrary: removedItem updatedPermissions)
  case Nil
  then show ?case by simp
next
  case (Cons rel rels)
  from Cons.prems have r: "readable rel" and rs: "list_all readable rels"
    by simp_all
  from r obtain x where x: "get_prop rel ''id'' = Inr x"
    using readable_get_prop by blast
  have k: "id_String rel = to_String x"
    using x by (simp add: id_String_def)
  show ?case
    using Cons.IH [OF rs] x k
    by (auto simp: filter_empty_conv)
qed

lemma removePermission_nonmember:
  assumes "granted (getPermission env user False DELETE RoleDao_rolePermissionResource)"
    and "repo_findOne (roleRepository env) i [''permissions''] (db w) = Some r"
    and "field r ''permissions'' = JArr perms"
    and "list_all readable perms"
    and "permissionId \<notin> set (map id_String perms)"
  shows "removePermission env user i permissionId w =
     (Inr (filter_fn (getPermission env user False DELETE RoleDao_rolePermissionResource)
             (JObj r)),
      \<lparr>db = snd (repo_save (roleRepository env) (JObj r) (db w)),
       calls = calls w @ [FindOne i [''permissions''], Save (JObj r)],
       events = events w @
         [(REMOVE,
           \<lparr>actor = \<lparr>actor_id = user_id user, actor_type = Person\<rparr>,
            object = JObj [(''id'', JStr permissionId), (''type'', JStr ''permission'')],
            resource = RoleDao_rolePermissionResource,
            target = Some (JObj [(''id'', JStr i), (''type'', JStr RoleDao_resource)]),
            timestamp = clock env (Suc (ticks w)),
            took = clock env (Suc (ticks w)) - clock env (ticks w),
            type = REMOVE\<rparr>)],
       ticks = Suc (Suc (ticks w))\<rparr>)"
proof -
  have loop: "removeLoop permissionId perms JUndefined [] = Inr (JUndefined, perms)"
    using assms(4,5) by (auto simp: removeLoop_readable filter_id_conv)
  show ?thesis
    using assms(1,2,3) loop
    by (simp add: removePermission_def step_defs Let_def split: prod.splits)
qed

text \<open>Claim C5. A granted \<open>removePermission\<close> on a role whose permission collection
  has no member with the given id returns without error, saves the record once and
  exactly as it was fetched, so with the collection it had, and emits one activity
  record.\<close>

theorem remove_nonmember_resaves_unchanged:
  assumes "granted (getPermission env user False DELETE RoleDao_rolePermissionResource)"
    and "repo_findOne (roleRepository env) i [''permissions''] (db w) = Some r"
    and "field r ''permissions'' = JArr perms"
    and "list_all readable perms"
    and "permissionId \<notin> set (map id_String perms)"
  shows "fst (removePermission env user i permissionId w) =
           Inr (filter_fn (getPermission env user False DELETE RoleDao_rolePermissionResource)
                  (JObj r))
     \<and> new_calls w (snd (removePermission env user i permissionId w)) =
           [FindOne i [''permissions''], Save (JObj r)]
     \<and> db (snd (removePermission env user i permissionId w)) =
           snd (repo_save (roleRepository env) (JObj r) (db w))
     \<and> length (new_events w (snd (removePermission env user i permissionId w))) = 1"
  by (simp add: removePermission_nonmember [OF assms] new_calls_def new_events_def)

text \<open>Removing the id 9 from the sample role, which holds the ids 2 and 1.\<close>

theorem remove_nonmember_resaves_unchanged_witness:
  "granted (getPermission admin_env alice False DELETE RoleDao_rolePermissionResource)
   \<and> repo_findOne (roleRepository admin_env) ''user'' [''permissions''] (db start_world) =
       Some user_role
   \<and> field user_role ''permissions'' = JArr [search_any, read_any]
   \<and> list_all readable [search_any, read_any]
   \<and> ''9'' \<notin> set (map id_String [search_any, read_any])
   \<and> fst (removePermission admin_env alice ''user'' ''9'' start_world) =
       Inr (mask_description (JObj user_role))
   \<and> new_calls start_world (snd (removePermission admin_env alice ''user'' ''9'' start_world)) =
       [FindOne ''user'' [''permissions''], Save (JObj user_role)]
   \<and> db (snd (removePermission admin_env alice ''user'' ''9'' start_world)) = [user_role]
   \<and> length (new_events start_world
               (snd (removePermission admin_env alice ''user'' ''9'' start_world))) = 1"
proof -
  have g: "granted (getPermission admin_env alice False DELETE RoleDao_rolePermissionResource)"
    by (simp add: admin_env_def)
  have f: "repo_findOne (roleRepository admin_env) ''user'' [''permissions''] (db start_world) =
       Some user_role"
    by (simp add: admin_env_def memRepository_def start_world_def user_role_def field_def)
  have c: "field user_role ''permissions'' = JArr [search_any, read_any]"
    by (simp add: user_role_def field_def)
  have r: "list_all readable [search_any, read_any]"
    by (simp add: readable_def search_any_def read_any_def)
  have n: "''9'' \<notin> set (map id_String [search_any, read_any])"
    by (simp add: id_String_def search_any_def read_any_def field_def digits.simps)
  from remove_nonmember_resaves_unchanged [OF g f c r n] g f c r n show ?thesis
    by (simp add: admin_env_def memRepository_def start_world_def user_role_def field_def)
qed

lemma field_update: "field (AList.update k v r) k' = (if k' = k then v else field r k')"
  by (simp add: field_def update_conv')

lemma field_JArr_map_of: "field r k = JArr xs \<Longrightarrow> map_of r k = Some (JArr xs)"
  by (simp add: field_def split: option.splits)

lemma update_field_triv: "field r k = JArr xs \<Longrightarrow> AList.update k (JArr xs) r = r"
  by (rule update_triv) (rule field_JArr_map_of)

lemma find_id: "List.find (\<lambda>x. field x ''id'' = k) rows = Some r \<Longrightarrow> field r ''id'' = k"
  by (auto simp: find_Some_iff)

lemma find_upsert:
  "field r ''id'' = k \<Longrightarrow> List.find (\<lambda>x. field x ''id'' = k) (upsert r rows) = Some r"
  by (induction rows) auto

lemma upsert_upsert:
  "field r1 ''id'' = field r2 ''id'' \<Longrightarrow> upsert r2 (upsert r1 rows) = upsert r2 rows"
  by (induction rows) auto

lemma upsert_found:
  "List.find (\<lambda>x. field x ''id'' = k) rows = Some r \<Longrightarrow> upsert r rows = rows"
proof (induction rows)
  case Nil
  then show ?case by simp
next
  case (Cons x rows)
  then show ?case
    by (cases "field x ''id'' = k") (auto dest: find_id)
qed

lemma addPermission_granted:
  assumes "granted (getPermission env user False CREATE RoleDao_rolePermissionResource)"
    and "repo_findOne (roleRepository env) i [''permissions''] (db w) = Some r"
    and "field r ''permissions'' = JArr perms"
    and "readable item"
  shows "addPermission env user i item w =
     (Inr (filter_fn (getPermission env user False CREATE RoleDao_rolePermissionResource)
             (JObj (AList.update ''permissions'' (JArr (perms @ [item])) r))),
      \<lparr>db = snd (repo_save (roleRepository env)
                   (JObj (AList.update ''permissions'' (JArr (perms @ [item])) r)) (db w)),
       calls = calls w @ [FindOne i [''permissions''],
                          Save (JObj (AList.update ''permissions'' (JArr (perms @ [item])) r))],
       events = events w @
         [(ADD,
           \<lparr>actor = \<lparr>actor_id = user_id user, actor_type = Person\<rparr>,
            object = JObj [(''id'',
                            field (fields_of
                              (handed_back
                                (JObj (AList.update ''permissions'' (JArr (perms @ [item])) r))
                                (repo_written (roleRepository env)
                                  (JObj (AList.update ''permissions'' (JArr (perms @ [item])) r))
                                  (db w)))) ''id''),
                           (''type'', JStr ''permission'')],
            resource = RoleDao_rolePermissionResource,
            target = Some (JObj [(''id'', JStr i), (''type'', JStr RoleDao_resource)]),
            timestamp = clock env (Suc (ticks w)),
            took = clock env (Suc (ticks w)) - clock env (ticks w),
            type = ADD\<rparr>)],
       ticks = Suc (Suc (ticks w))\<rparr>)"
proof -
  from assms(4) obtain a where a: "get_prop item ''action'' = Inr a"
    using readable_get_prop by blast
  show ?thesis
    using assms(1,2,3) a
    by (simp add: addPermission_def step_defs Let_def field_update split: prod.splits)
qed

lemma removePermission_member:
  assumes "granted (getPermission env user False DELETE RoleDao_rolePermissionResource)"
    and "repo_findOne (roleRepository env) i [''permissions''] (db w) = Some r"
    and "field r ''permissions'' = JArr perms"
    and "list_all readable perms"
    and "permissionId \<in> set (map id_String perms)"
    and "truthy (last (filter (\<lambda>rel. id_String rel = permissionId) perms))"
  shows "removePermission env user i permissionId w =
     (let r' = AList.update ''permissions''
                 (JArr (filter (\<lambda>rel. id_String rel \<noteq> permissionId) perms)) r;
          s1 = snd (repo_save (roleRepository env) (JObj r') (db w));
          left = handed_back (JObj r') (repo_written (roleRepository env) (JObj r') (db w))
      in (Inr (filter_fn (getPermission env user False DELETE RoleDao_rolePermissionResource)
                 left),
          \<lparr>db = snd (repo_save (roleRepository env) left s1),
           calls = calls w @ [FindOne i [''permissions''], Save (JObj r'), Save left],
           events = events w @
             [(REMOVE,
               \<lparr>actor = \<lparr>actor_id = user_id user, actor_type = Person\<rparr>,
                object = JObj [(''id'', JStr permissionId), (''type'', JStr ''permission'')],
                resource = RoleDao_rolePermissionResource,
                target = Some (JObj [(''id'', JStr i), (''type'', JStr RoleDao_resource)]),
                timestamp = clock env (Suc (ticks w)),
                took = clock env (Suc (ticks w)) - clock env (ticks w),
                type = REMOVE\<rparr>)],
           ticks = Suc (Suc (ticks w))\<rparr>))"
proof -
  have loop: "removeLoop permissionId perms JUndefined [] =
      Inr (last (filter (\<lambda>rel. id_String rel = permissionId) perms),
           filter (\<lambda>rel. id_String rel \<noteq> permissionId) perms)"
    using assms(4,5) by (simp add: removeLoop_readable)
  show ?thesis
    using assms(1,2,3,6) loop
    by (simp add: removePermission_def step_defs Let_def split: prod.splits)
qed

lemma truthy_readable: "truthy v \<Longrightarrow> readable v"
  by (cases v) (simp_all add: readable_def)

lemma filter_other_keys: "k \<notin> set (map f xs) \<Longrightarrow> filter (\<lambda>x. f x \<noteq> k) xs = xs"
  by (induction xs) auto

lemma filter_this_key: "k \<notin> set (map f xs) \<Longrightarrow> filter (\<lambda>x. f x = k) xs = []"
  by (induction xs) auto

text \<open>Claim C6, amended. On the in-memory repository, for a permission item whose id is
  not yet a member of the role's collection, a granted \<open>addPermission\<close> of the item
  followed by a granted \<open>removePermission\<close> of the item's id both return, and leave
  the role's record, hence its permission collection, and the whole table as they were
  before the add.\<close>

theorem add_then_remove_restores:
  assumes repo: "roleRepository env = memRepository"
    and gc: "granted (getPermission env user False CREATE RoleDao_rolePermissionResource)"
    and gd: "granted (getPermission env user False DELETE RoleDao_rolePermissionResource)"
    and found: "repo_findOne memRepository i [''permissions''] (db w) = Some r"
    and coll: "field r ''permissions'' = JArr perms"
    and rd: "list_all readable perms"
    and item: "truthy item"
    and fresh: "id_String item \<notin> set (map id_String perms)"
  shows "\<not> isl (fst (addPermission env user i item w))
     \<and> \<not> isl (fst (removePermission env user i (id_String item)
                     (snd (addPermission env user i item w))))
     \<and> repo_findOne memRepository i [''permissions'']
         (db (snd (removePermission env user i (id_String item)
                     (snd (addPermission env user i item w))))) = Some r
     \<and> db (snd (removePermission env user i (id_String item)
                  (snd (addPermission env user i item w)))) = db w"
proof -
  let ?r1 = "AList.update ''permissions'' (JArr (perms @ [item])) r"
  let ?w1 = "snd (addPermission env user i item w)"
  let ?pid = "id_String item"
  have found_w: "repo_findOne (roleRepository env) i [''permissions''] (db w) = Some r"
    using repo found by simp
  have quiet: "repo_written (roleRepository env) v s = v" for v s
    by (simp add: repo memRepository_def)
  have key: "List.find (\<lambda>x. field x ''id'' = JStr i) (db w) = Some r"
    using found by (simp add: memRepository_def)
  have rid: "field r ''id'' = JStr i"
    using key by (rule find_id)
  have r1id: "field ?r1 ''id'' = JStr i"
    using rid by (simp add: field_update)
  have add: "addPermission env user i item w =
     (Inr (filter_fn (getPermission env user False CREATE RoleDao_rolePermissionResource)
             (JObj ?r1)),
      \<lparr>db = snd (repo_save (roleRepository env) (JObj ?r1) (db w)),
       calls = calls w @ [FindOne i [''permissions''], Save (JObj ?r1)],
       events = events w @
         [(ADD,
           \<lparr>actor = \<lparr>actor_id = user_id user, actor_type = Person\<rparr>,
            object = JObj [(''id'', field r ''id''), (''type'', JStr ''permission'')],
            resource = RoleDao_rolePermissionResource,
            target = Some (JObj [(''id'', JStr i), (''type'', JStr RoleDao_resource)]),
            timestamp = clock env (Suc (ticks w)),
            took = clock env (Suc (ticks w)) - clock env (ticks w),
            type = ADD\<rparr>)],
       ticks = Suc (Suc (ticks w))\<rparr>)"
    using addPermission_granted [OF gc found_w coll truthy_readable [OF item]]
    by (simp add: quiet handed_back_same field_update)
  have db1: "db ?w1 = upsert ?r1 (db w)"
    by (simp add: add repo memRepository_def)
  have found1: "repo_findOne (roleRepository env) i [''permissions''] (db ?w1) = Some ?r1"
    using r1id by (simp add: db1 repo memRepository_def find_upsert)
  have coll1: "field ?r1 ''permissions'' = JArr (perms @ [item])"
    by (simp add: field_update)
  have rd1: "list_all readable (perms @ [item])"
    using rd item by (simp add: truthy_readable)
  have mem1: "?pid \<in> set (map id_String (perms @ [item]))"
    by simp
  have others: "filter (\<lambda>rel. id_String rel \<noteq> ?pid) (perms @ [item]) = perms"
    using fresh by (simp add: filter_other_keys)
  have hit: "filter (\<lambda>rel. id_String rel = ?pid) (perms @ [item]) = [item]"
    using fresh by (simp add: filter_this_key)
  have removed: "truthy (last (filter (\<lambda>rel. id_String rel = ?pid) (perms @ [item])))"
    using item by (simp add: hit)
  have restored: "AList.update ''permissions'' (JArr perms) ?r1 = r"
    using coll by (simp add: update_field_triv)
  have rem: "removePermission env user i ?pid ?w1 =
     (Inr (filter_fn (getPermission env user False DELETE RoleDao_rolePermissionResource)
             (JObj r)),
      \<lparr>db = snd (repo_save (roleRepository env) (JObj r)
                   (snd (repo_save (roleRepository env) (JObj r) (db ?w1)))),
       calls = calls ?w1 @ [FindOne i [''permissions''], Save (JObj r), Save (JObj r)],
       events = events ?w1 @
         [(REMOVE,
           \<lparr>actor = \<lparr>actor_id = user_id user, actor_type = Person\<rparr>,
            object = JObj [(''id'', JStr ?pid), (''type'', JStr ''permission'')],
            resource = RoleDao_rolePermissionResource,
            target = Some (JObj [(''id'', JStr i), (''type'', JStr RoleDao_resource)]),
            timestamp = clock env (Suc (ticks ?w1)),
            took = clock env (Suc (ticks ?w1)) - clock env (ticks ?w1),
            type = REMOVE\<rparr>)],
       ticks = Suc (Suc (ticks ?w1))\<rparr>)"
    using removePermission_member [OF gd found1 coll1 rd1 mem1 removed]
    unfolding Let_def others restored quiet handed_back_same
    by simp
  have same_id: "field ?r1 ''id'' = field r ''id''"
    using rid r1id by simp
  have db2: "db (snd (removePermission env user i ?pid ?w1)) = db w"
    using key by (simp add: rem db1 repo memRepository_def upsert_upsert [OF same_id]
        upsert_upsert [OF refl] upsert_found)
  have ok1: "\<not> isl (fst (addPermission env user i item w))"
    by (simp add: add)
  have ok2: "\<not> isl (fst (removePermission env user i ?pid ?w1))"
    by (simp add: rem)
  have found2: "repo_findOne memRepository i [''permissions'']
      (db (snd (removePermission env user i ?pid ?w1))) = Some r"
    using found by (simp only: db2)
  from ok1 ok2 found2 db2 show ?thesis
    by blast
qed

lemma id_String_samples:
  "id_String search_any = ''2''" "id_String read_any = ''1''" "id_String update_any = ''3''"
  by (simp_all add: id_String_def search_any_def read_any_def update_any_def field_def
      digits.simps)

lemma sample_found:
  "repo_findOne memRepository ''user'' [''permissions''] (db start_world) = Some user_role"
  by (simp add: memRepository_def start_world_def user_role_def field_def)

lemma sample_collection: "field user_role ''permissions'' = JArr [search_any, read_any]"
  by (simp add: user_role_def field_def)

lemma sample_readable: "list_all readable [search_any, read_any]"
  by (simp add: readable_def search_any_def read_any_def)

text \<open>Adding the permission 3 to the sample role and removing it again.\<close>

theorem add_then_remove_restores_witness:
  "roleRepository admin_env = memRepository
   \<and> granted (getPermission admin_env alice False CREATE RoleDao_rolePermissionResource)
   \<and> granted (getPermission admin_env alice False DELETE RoleDao_rolePermissionResource)
   \<and> repo_findOne memRepository ''user'' [''permissions''] (db start_world) = Some user_role
   \<and> field user_role ''permissions'' = JArr [search_any, read_any]
   \<and> list_all readable [search_any, read_any]
   \<and> truthy update_any
   \<and> id_String update_any \<notin> set (map id_String [search_any, read_any])
   \<and> id_String update_any = ''3''
   \<and> repo_findOne memRepository ''user'' [''permissions'']
        (db (snd (removePermission admin_env alice ''user'' ''3''
                    (snd (addPermission admin_env alice ''user'' update_any start_world))))) =
       Some user_role"
proof -
  have h1: "roleRepository admin_env = memRepository"
    by (simp add: admin_env_def)
  have h2: "granted (getPermission admin_env alice False CREATE RoleDao_rolePermissionResource)"
    by (simp add: admin_env_def)
  have h3: "granted (getPermission admin_env alice False DELETE RoleDao_rolePermissionResource)"
    by (simp add: admin_env_def)
  have h7: "truthy update_any"
    by (simp add: update_any_def)
  have h8: "id_String update_any \<notin> set (map id_String [search_any, read_any])"
    by (simp add: id_String_samples)
  note run = add_then_remove_restores
    [OF h1 h2 h3 sample_found sample_collection sample_readable h7 h8]
  from run h1 h2 h3 h7 h8 sample_found sample_collection sample_readable show ?thesis
    by (simp add: id_String_samples)
qed

text \<open>Claim C6 says that add followed by remove of the same id restores the membership for
  every item. When the item is already a member, the add appends it again and the remove
  drops every relation with that id: the member the role had before is gone.\<close>

theorem add_then_remove_counterexample:
  "granted (getPermission admin_env alice False CREATE RoleDao_rolePermissionResource)
   \<and> granted (getPermission admin_env alice False DELETE RoleDao_rolePermissionResource)
   \<and> repo_findOne memRepository ''user'' [''permissions''] (db start_world) =
       Some [(''id'', JStr ''user''),
             (''description'', JStr ''Authenticated user with basic privileges''),
             (''permissions'', JArr [search_any, read_any])]
   \<and> id_String read_any = ''1''
   \<and> \<not> isl (fst (addPermission admin_env alice ''user'' read_any start_world))
   \<and> \<not> isl (fst (removePermission admin_env alice ''user'' ''1''
                     (snd (addPermission admin_env alice ''user'' read_any start_world))))
   \<and> repo_findOne memRepository ''user'' [''permissions'']
        (db (snd (removePermission admin_env alice ''user'' ''1''
                    (snd (addPermission admin_env alice ''user'' read_any start_world))))) =
       Some [(''id'', JStr ''user''),
             (''description'', JStr ''Authenticated user with basic privileges''),
             (''permissions'', JArr [search_any])]
   \<and> set [search_any] \<noteq> set [search_any, read_any]"
  by (simp add: addPermission_def removePermission_def step_defs Let_def admin_env_def
      memRepository_def start_world_def user_role_def field_def id_String_def
      search_any_def read_any_def digits.simps)

text \<open>Claim C9 says that every operation preserves the uniqueness of the members, and
  that adding an item whose id is already a member does not produce a collection with
  two members of that identity. \<open>addPermission\<close> pushes without looking: the record it
  saves holds the member twice. And \<open>save\<close> persists its filtered input as it comes: a
  role sent with a doubled collection is saved with it.\<close>

theorem uniqueness_not_preserved_counterexample:
  "granted (getPermission admin_env alice False CREATE RoleDao_rolePermissionResource)
   \<and> repo_findOne memRepository ''user'' [''permissions''] (db start_world) = Some user_role
   \<and> unique_members (JObj user_role)
   \<and> read_any \<in> set [search_any, read_any]
   \<and> new_calls start_world (snd (addPermission admin_env alice ''user'' read_any start_world)) =
       [FindOne ''user'' [''permissions''],
        Save (JObj [(''id'', JStr ''user''),
                    (''description'', JStr ''Authenticated user with basic privileges''),
                    (''permissions'', JArr [search_any, read_any, read_any])])]
   \<and> \<not> unique_members
          (JObj [(''id'', JStr ''user''),
                 (''description'', JStr ''Authenticated user with basic privileges''),
                 (''permissions'', JArr [search_any, read_any, read_any])])
   \<and> granted (getPermission admin_env alice False UPDATE RoleDao_resource)
   \<and> new_calls start_world
        (snd (save admin_env alice
                (JObj [(''id'', JStr ''user''), (''permissions'', JArr [read_any, read_any])])
                start_world)) =
       [Save (JObj [(''id'', JStr ''user''), (''permissions'', JArr [read_any, read_any])])]
   \<and> \<not> unique_members
          (JObj [(''id'', JStr ''user''), (''permissions'', JArr [read_any, read_any])])"
  by (simp add: addPermission_def save_def step_defs Let_def admin_env_def new_calls_def
      memRepository_def start_world_def user_role_def field_def unique_members_def
      id_String_samples)
     (simp add: read_any_def field_def)

lemma removeLoop_result:
  "removeLoop pid rels removedItem updatedPermissions = Inr (removed, updated) \<Longrightarrow>
   updated = updatedPermissions @ filter (\<lambda>rel. id_String rel \<noteq> pid) rels"
proof (induction rels arbitrary: removedItem updatedPermissions)
  case Nil
  then show ?case by simp
next
  case (Cons rel rels)
  show ?case
  proof (cases "get_prop rel ''id''")
    case (Inl e)
    with Cons.prems show ?thesis by simp
  next
    case (Inr x)
    note k = id_String_of [OF Inr]
    show ?thesis
    proof (cases "to_String x = pid")
      case True
      with Cons.prems Inr
      have "removeLoop pid rels rel updatedPermissions = Inr (removed, updated)"
        by simp
      from Cons.IH [OF this] True k show ?thesis by simp
    next
      case False
      with Cons.prems Inr
      have "removeLoop pid rels removedItem (updatedPermissions @ [rel]) = Inr (removed, updated)"
        by simp
      from Cons.IH [OF this] False k show ?thesis by simp
    qed
  qed
qed

lemma unique_members_update:
  "unique_members (JObj (AList.update ''permissions'' (JArr ps) r)) = distinct (map id_String ps)"
  by (simp add: unique_members_def field_update)

lemma getAll_saves_nothing: "list_all saves_unique (new_calls w (snd (getAll env user w)))"
  by (simp add: getAll_def step_defs new_calls_def Let_def split: prod.splits option.splits)

lemma getOne_saves_nothing: "list_all saves_unique (new_calls w (snd (getOne env user i w)))"
  by (simp add: getOne_def step_defs new_calls_def Let_def split: prod.splits option.splits)

lemma remove_saves_nothing: "list_all saves_unique (new_calls w (snd (remove env user i w)))"
  by (simp add: remove_def step_defs new_calls_def Let_def split: prod.splits option.splits)

lemma getPermissions_saves_nothing:
  "list_all saves_unique (new_calls w (snd (getPermissions env user i w)))"
  by (simp add: getPermissions_def step_defs new_calls_def Let_def
      split: prod.splits option.splits)

lemma save_saves_unique:
  assumes "\<forall>x. get_prop data_in ''id'' = Inr x \<longrightarrow>
             unique_members (filter_fn (getPermission env user False
               (if truthy x then UPDATE else CREATE) RoleDao_resource) data_in)"
  shows "list_all saves_unique (new_calls w (snd (save env user data_in w)))"
  using assms
  by (auto simp: save_def step_defs new_calls_def Let_def split: prod.splits sum.splits)

lemma addPermission_saves_unique:
  assumes "repo_findOne (roleRepository env) i [''permissions''] (db w) = Some r"
    and "field r ''permissions'' = JArr perms"
    and "distinct (map id_String perms)"
    and "id_String item \<notin> set (map id_String perms)"
  shows "list_all saves_unique (new_calls w (snd (addPermission env user i item w)))"
  using assms
  by (simp add: addPermission_def step_defs new_calls_def Let_def unique_members_update
      split: prod.splits sum.splits)

lemma removePermission_saves_unique:
  assumes "repo_findOne (roleRepository env) i [''permissions''] (db w) = Some r"
    and "field r ''permissions'' = JArr perms"
    and "distinct (map id_String perms)"
    and keeps: "\<And>v s. unique_members v \<Longrightarrow>
                  unique_members (handed_back v (repo_written (roleRepository env) v s))"
  shows "list_all saves_unique (new_calls w (snd (removePermission env user i permissionId w)))"
proof -
  have before: "unique_members (JObj r)"
    using assms(2,3) by (simp add: unique_members_def)
  have after: "unique_members (JObj (AList.update ''permissions'' (JArr updated) r))"
    if "removeLoop permissionId perms JUndefined [] = Inr (removed, updated)"
    for removed updated
    using removeLoop_result [OF that] assms(3)
    by (simp add: unique_members_update distinct_map_filter)
  show ?thesis
    using assms(1,2) before after keeps
    by (auto simp: removePermission_def step_defs new_calls_def Let_def
        split: prod.splits sum.splits)
qed

text \<open>Claim C9, amended. Take a role whose permission collection is membership-unique and
  a store that leaves a membership-unique collection so in the object it is handed.
  Then every record an operation hands to the store's \<open>save\<close> carries a
  membership-unique collection: \<open>getAll\<close>, \<open>getOne\<close>, \<open>remove\<close> and
  \<open>getPermissions\<close> save nothing, \<open>removePermission\<close> saves the collection
  without the relations of the given id, \<open>addPermission\<close> is covered when the id of
  the item is not already a member, and \<open>save\<close> when the collection of its filtered
  input is membership-unique.\<close>

theorem collection_stays_unique:
  assumes "repo_findOne (roleRepository env) i [''permissions''] (db w) = Some r"
    and "field r ''permissions'' = JArr perms"
    and "distinct (map id_String perms)"
    and "\<And>v s. unique_members v \<Longrightarrow>
           unique_members (handed_back v (repo_written (roleRepository env) v s))"
  shows "list_all saves_unique (new_calls w (snd (getAll env user w)))
     \<and> list_all saves_unique (new_calls w (snd (getOne env user i w)))
     \<and> list_all saves_unique (new_calls w (snd (remove env user i w)))
     \<and> list_all saves_unique (new_calls w (snd (getPermissions env user i w)))
     \<and> list_all saves_unique (new_calls w (snd (removePermission env user i permissionId w)))
     \<and> (id_String item \<notin> set (map id_String perms) \<longrightarrow>
          list_all saves_unique (new_calls w (snd (addPermission env user i item w))))
     \<and> ((\<forall>x. get_prop data_in ''id'' = Inr x \<longrightarrow>
             unique_members (filter_fn (getPermission env user False
               (if truthy x then UPDATE else CREATE) RoleDao_resource) data_in)) \<longrightarrow>
          list_all saves_unique (new_calls w (snd (save env user data_in w))))"
  using assms(1,2,3)
  by (simp add: getAll_saves_nothing getOne_saves_nothing remove_saves_nothing
      getPermissions_saves_nothing save_saves_unique addPermission_saves_unique
      removePermission_saves_unique [OF assms])

text \<open>On the sample role: adding the permission 3, removing the permission 1, and an
  update that sends the role with one permission.\<close>

theorem collection_stays_unique_witness:
  "repo_findOne (roleRepository admin_env) ''user'' [''permissions''] (db start_world) =
     Some user_role
   \<and> field user_role ''permissions'' = JArr [search_any, read_any]
   \<and> distinct (map id_String [search_any, read_any])
   \<and> repo_written (roleRepository admin_env) = (\<lambda>v s. v)
   \<and> id_String update_any \<notin> set (map id_String [search_any, read_any])
   \<and> get_prop (JObj [(''id'', JStr ''user''), (''permissions'', JArr [read_any])]) ''id'' =
       Inr (JStr ''user'')
   \<and> unique_members
        (filter_fn (getPermission admin_env alice False UPDATE RoleDao_resource)
           (JObj [(''id'', JStr ''user''), (''permissions'', JArr [read_any])]))
   \<and> new_calls start_world (snd (addPermission admin_env alice ''user'' update_any start_world)) =
       [FindOne ''user'' [''permissions''],
        Save (JObj [(''id'', JStr ''user''),
                    (''description'', JStr ''Authenticated user with basic privileges''),
                    (''permissions'', JArr [search_any, read_any, update_any])])]
   \<and> list_all saves_unique
        (new_calls start_world (snd (addPermission admin_env alice ''user'' update_any start_world)))
   \<and> list_all saves_unique
        (new_calls start_world (snd (removePermission admin_env alice ''user'' ''1'' start_world)))
   \<and> list_all saves_unique
        (new_calls start_world
          (snd (save admin_env alice
                  (JObj [(''id'', JStr ''user''), (''permissions'', JArr [read_any])])
                  start_world)))"
proof -
  have f: "repo_findOne (roleRepository admin_env) ''user'' [''permissions''] (db start_world) =
     Some user_role"
    using sample_found by (simp add: admin_env_def)
  have d: "distinct (map id_String [search_any, read_any])"
    by (simp add: id_String_samples)
  have q: "repo_written (roleRepository admin_env) = (\<lambda>v s. v)"
    by (simp add: admin_env_def memRepository_def)
  have k: "unique_members (handed_back v (repo_written (roleRepository admin_env) v s))"
    if "unique_members v" for v s
    using that by (simp add: q handed_back_same)
  have n: "id_String update_any \<notin> set (map id_String [search_any, read_any])"
    by (simp add: id_String_samples)
  have p: "get_prop (JObj [(''id'', JStr ''user''), (''permissions'', JArr [read_any])]) ''id'' =
       Inr (JStr ''user'')"
    by (simp add: field_def)
  have u: "unique_members
        (filter_fn (getPermission admin_env alice False UPDATE RoleDao_resource)
           (JObj [(''id'', JStr ''user''), (''permissions'', JArr [read_any])]))"
    by (simp add: admin_env_def unique_members_def field_def)
  have c: "new_calls start_world
      (snd (addPermission admin_env alice ''user'' update_any start_world)) =
       [FindOne ''user'' [''permissions''],
        Save (JObj [(''id'', JStr ''user''),
                    (''description'', JStr ''Authenticated user with basic privileges''),
                    (''permissions'', JArr [search_any, read_any, update_any])])]"
    by (simp add: addPermission_def step_defs Let_def admin_env_def new_calls_def
        memRepository_def start_world_def user_role_def field_def update_any_def)
  from collection_stays_unique [OF f sample_collection d k, of alice "''1''" update_any
      "JObj [(''id'', JStr ''user''), (''permissions'', JArr [read_any])]"]
    f sample_collection d q n p u c
  show ?thesis
    by (simp add: field_def)
qed

end
